theory Spec2Isabelle
  imports Complex_Main
begin

section \<open>Python values, exceptions and built-ins used by manager.py\<close>

text \<open>
  The exceptions that the modelled code paths of \<^verbatim>\<open>manager.py\<close> can raise.  Python 3
  (3.6 to 3.11) is the reference semantics: the script's shebang is \<^verbatim>\<open>python3\<close> and it
  uses \<^verbatim>\<open>Popen.communicate\<close> with a timeout.  A raised exception is the left injection
  of a sum; nothing in \<^verbatim>\<open>manager.py\<close> on the match path catches an exception.
\<close>

datatype error =
    ValueError
  | IndexError
  | TimeoutExpired
  | UnicodeDecodeError
  | OSError
  | IntegrityError
  | LibraryError

text \<open>\<^verbatim>\<open>s.split(sep)\<close> with an explicit one-character separator: every occurrence
  of the separator cuts, empty pieces are kept, and the result is never empty.\<close>

fun py_split :: "char \<Rightarrow> string \<Rightarrow> string list" where
  "py_split sep [] = [[]]"
| "py_split sep (c # cs) =
     (if c = sep then [] # py_split sep cs
      else (case py_split sep cs of
              [] \<Rightarrow> [[c]]
            | w # ws \<Rightarrow> (c # w) # ws))"

text \<open>\<^verbatim>\<open>xs[i]\<close> and \<^verbatim>\<open>xs[i] = v\<close> on a Python list: a negative index counts from the
  end, anything outside \<^verbatim>\<open>-len(xs) .. len(xs)-1\<close> raises \<^verbatim>\<open>IndexError\<close>.\<close>

definition list_getitem :: "'a list \<Rightarrow> int \<Rightarrow> error + 'a" where
  "list_getitem xs i =
     (let n = int (length xs); j = (if i < 0 then i + n else i)
      in if 0 \<le> j \<and> j < n then Inr (xs ! nat j) else Inl IndexError)"

definition list_setitem :: "'a list \<Rightarrow> int \<Rightarrow> 'a \<Rightarrow> error + 'a list" where
  "list_setitem xs i v =
     (let n = int (length xs); j = (if i < 0 then i + n else i)
      in if 0 \<le> j \<and> j < n then Inr (xs[nat j := v]) else Inl IndexError)"

text \<open>\<^verbatim>\<open>int(s)\<close> on an ASCII string, base 10: surrounding ASCII whitespace is dropped,
  one optional sign, then decimal digits in which single underscores may stand between
  two digits.  Anything else raises \<^verbatim>\<open>ValueError\<close>, here \<open>None\<close>.  (The limit of
  4300 digits of the newest interpreters is left out.)\<close>

definition is_space :: "char \<Rightarrow> bool" where
  "is_space c = (c \<in> set [CHR '' '', CHR 0x09, CHR 0x0A, CHR 0x0B, CHR 0x0C, CHR 0x0D])"

definition is_digit :: "char \<Rightarrow> bool" where
  "is_digit c = (48 \<le> (of_char c :: nat) \<and> (of_char c :: nat) \<le> 57)"

definition strip :: "string \<Rightarrow> string" where
  "strip s = rev (dropWhile is_space (rev (dropWhile is_space s)))"

fun digits :: "nat \<Rightarrow> bool \<Rightarrow> string \<Rightarrow> nat option" where
  "digits acc prev [] = (if prev then Some acc else None)"
| "digits acc prev (c # cs) =
     (if is_digit c then digits (10 * acc + (of_char c - 48)) True cs
      else if c = CHR ''_'' \<and> prev then
        (case cs of [] \<Rightarrow> None
         | d # ds \<Rightarrow> if is_digit d then digits acc False cs else None)
      else None)"

definition py_int :: "string \<Rightarrow> int option" where
  "py_int s =
     (case strip s of
        [] \<Rightarrow> None
      | c # cs \<Rightarrow>
          if c = CHR ''-'' then map_option (\<lambda>n. - int n) (digits 0 False cs)
          else if c = CHR ''+'' then map_option int (digits 0 False cs)
          else map_option int (digits 0 False (c # cs)))"


section \<open>class Player\<close>

text \<open>Python floats are modelled by \<^typ>\<open>real\<close>: the claims below concern which values
  are stored where, not rounding.\<close>

record player =
  name :: string
  path :: string
  last_seen :: string
  rank :: int
  skill :: real
  mu :: real
  sigma :: real
  ngames :: int
  active :: int

text \<open>\<^verbatim>\<open>Player(name, path)\<close> with the defaults of the constructor.\<close>

definition Player_init :: "string \<Rightarrow> string \<Rightarrow> player" where
  "Player_init nm pth =
     \<lparr>name = nm, path = pth, last_seen = [], rank = 1000, skill = 0.0, mu = 50.0,
      sigma = 50.0 / 3.0, ngames = 0, active = 1\<rparr>"

definition update_skill :: "player \<Rightarrow> player" where
  "update_skill p = p\<lparr>skill := mu p - (sigma p * 3)\<rparr>"

section \<open>class Match\<close>

text \<open>A \<^verbatim>\<open>Match\<close> holds references to the manager's \<^verbatim>\<open>Player\<close> objects, not copies:
  field \<open>o_players\<close> (\<^verbatim>\<open>self.players\<close>) is the list of their positions in the manager's
  list, which serves as the object store.\<close>

record match =
  map_seed :: int
  width :: int
  height :: int
  o_players :: "nat list"
  paths :: "string list"
  finished :: bool
  results :: "int list"
  return_code :: "int option"
  results_string :: string
  replay_file :: string
  total_time_limit :: real
  timeouts :: "string list"
  num_players :: nat
  keep_replay :: bool

text \<open>The body of the \<^verbatim>\<open>for line in lines\<close> loop of \<^verbatim>\<open>parse_results_string\<close>, with the
  branches in the order of the source.\<close>

definition parse_line :: "match \<Rightarrow> nat \<Rightarrow> string \<Rightarrow> error + match" where
  "parse_line m count line =
     (if count = num_players m then
        (case list_getitem (py_split (CHR '' '') line) 0 of
           Inl e \<Rightarrow> Inl e
         | Inr f \<Rightarrow> Inr (m\<lparr>replay_file := f\<rparr>))
      else if count = (num_players m * 2) + 1 then
        Inr (m\<lparr>timeouts := py_split (CHR '' '') line\<rparr>)
      else if count < num_players m then Inr m
      else if count < (num_players m * 2) + 1 then
        (let token = py_split (CHR '' '') line in
         case list_getitem token 0 of
           Inl e \<Rightarrow> Inl e
         | Inr t0 \<Rightarrow>
            (case py_int t0 of
               None \<Rightarrow> Inl ValueError
             | Some rank' \<Rightarrow>
                (case list_getitem token 1 of
                   Inl e \<Rightarrow> Inl e
                 | Inr t1 \<Rightarrow>
                    (case py_int t1 of
                       None \<Rightarrow> Inl ValueError
                     | Some p \<Rightarrow>
                        (case list_setitem (results m) (p - 1) rank' of
                           Inl e \<Rightarrow> Inl e
                         | Inr rs \<Rightarrow> Inr (m\<lparr>results := rs\<rparr>))))))
      else Inr m)"

fun parse_loop :: "match \<Rightarrow> nat \<Rightarrow> string list \<Rightarrow> error + match" where
  "parse_loop m count [] = Inr m"
| "parse_loop m count (line # lines) =
     (case parse_line m count line of
        Inl e \<Rightarrow> Inl e
      | Inr m' \<Rightarrow> parse_loop m' (count + 1) lines)"

definition parse_results_string :: "match \<Rightarrow> error + match" where
  "parse_results_string m =
     (let lines = py_split (CHR 0x0A) (results_string m) in
      if length lines < 2 + (2 * num_players m) then Inl ValueError
      else parse_loop m 0 lines)"





definition Match_init ::
  "player list \<Rightarrow> nat list \<Rightarrow> int \<Rightarrow> int \<Rightarrow> int \<Rightarrow> real \<Rightarrow> bool \<Rightarrow> match" where
  "Match_init heap refs w h seed time_limit keep =
     \<lparr>map_seed = seed, width = w, height = h, o_players = refs,
      paths = map (\<lambda>r. path (heap ! r)) refs,
      finished = False,
      results = map (\<lambda>_. 0) refs,
      return_code = None,
      results_string = [],
      replay_file = [],
      total_time_limit = time_limit,
      timeouts = [],
      num_players = length refs,
      keep_replay = keep\<rparr>"


section \<open>The rating library and the module-level rating functions\<close>

text \<open>The \<^verbatim>\<open>skills\<close> package is an external library.  A Gaussian rating is the pair
  (mean, stdev); a team is the dictionary from player name to rating, as an association
  list in key order.  \<^verbatim>\<open>skills.Match\<close> followed by \<^verbatim>\<open>calc.new_ratings\<close> is the
  parameter \<open>calc\<close>, which may raise.\<close>

type_synonym rating = "real \<times> real"

text \<open>\<^verbatim>\<open>update_player_skill(players, player_name, skill_data)\<close>: the loop visits every
  referenced player and updates the first one whose name matches.\<close>

fun update_player_skill_loop ::
  "player list \<Rightarrow> nat list \<Rightarrow> string \<Rightarrow> rating \<Rightarrow> bool \<Rightarrow> player list" where
  "update_player_skill_loop heap [] player_name skill_data finished' = heap"
| "update_player_skill_loop heap (r # rs) player_name skill_data finished' =
     (if \<not> finished' then
        (if name (heap ! r) = player_name then
           update_player_skill_loop
             (heap[r := update_skill ((heap ! r)\<lparr>mu := fst skill_data, sigma := snd skill_data\<rparr>)])
             rs player_name skill_data True
         else update_player_skill_loop heap rs player_name skill_data finished')
      else update_player_skill_loop heap rs player_name skill_data finished')"

definition update_player_skill ::
  "player list \<Rightarrow> nat list \<Rightarrow> string \<Rightarrow> rating \<Rightarrow> player list" where
  "update_player_skill heap refs player_name skill_data =
     update_player_skill_loop heap refs player_name skill_data False"


section \<open>The engine process and the file system\<close>








section \<open>class Database\<close>

text \<open>The \<^verbatim>\<open>players\<close> table, one record per row in the order of insertion, with the
  columns of the \<^verbatim>\<open>create table\<close> statement; \<open>autoinc\<close> is the last key handed out by
  \<^verbatim>\<open>autoincrement\<close>.  The value of \<^verbatim>\<open>self.now()\<close> is an argument of every operation
  that stamps a row.\<close>

record row =
  col_id :: nat
  col_name :: string
  col_path :: string
  col_lastseen :: string
  col_rank :: int
  col_skill :: real
  col_mu :: real
  col_sigma :: real
  col_ngames :: int
  col_active :: int

record database =
  rows :: "row list"
  autoinc :: nat

text \<open>\<^verbatim>\<open>insert into players values(...)\<close>: the column \<^verbatim>\<open>name\<close> is declared
  \<^verbatim>\<open>unique\<close>, so inserting a name that is already there raises
  \<^verbatim>\<open>sqlite3.IntegrityError\<close> and changes nothing.  SQLite compares text byte by byte.\<close>

definition Database_add_player :: "database \<Rightarrow> string \<Rightarrow> string \<Rightarrow> string \<Rightarrow> error + database" where
  "Database_add_player d now nm pth =
     (if nm \<in> set (map col_name (rows d)) then Inl IntegrityError
      else Inr (d\<lparr>rows := rows d @
                  [\<lparr>col_id = autoinc d + 1, col_name = nm, col_path = pth, col_lastseen = now,
                    col_rank = 1000, col_skill = 0.0, col_mu = 50.0, col_sigma = 50.0 / 3.0,
                    col_ngames = 0, col_active = 1\<rparr>],
                autoinc := autoinc d + 1\<rparr>))"

definition delete_player :: "database \<Rightarrow> string \<Rightarrow> database" where
  "delete_player d nm = d\<lparr>rows := filter (\<lambda>r. col_name r \<noteq> nm) (rows d)\<rparr>"

text \<open>\<^verbatim>\<open>get_player(names)\<close> builds one \<^verbatim>\<open>name=?\<close> per name; with the only tuple it is
  ever given, \<^verbatim>\<open>(name,)\<close>, it selects the rows of that name.\<close>

definition get_player :: "database \<Rightarrow> string list \<Rightarrow> row list" where
  "get_player d names = filter (\<lambda>r. col_name r \<in> set names) (rows d)"

definition Database_update_player_skill ::
  "database \<Rightarrow> string \<Rightarrow> string \<Rightarrow> real \<Rightarrow> real \<Rightarrow> real \<Rightarrow> database" where
  "Database_update_player_skill d now nm sk m s =
     d\<lparr>rows := map (\<lambda>r. if col_name r = nm
                         then r\<lparr>col_ngames := col_ngames r + 1, col_lastseen := now,
                                col_skill := sk, col_mu := m, col_sigma := s\<rparr>
                         else r) (rows d)\<rparr>"

definition save_player :: "database \<Rightarrow> string \<Rightarrow> player \<Rightarrow> database" where
  "save_player d now p = Database_update_player_skill d now (name p) (skill p) (mu p) (sigma p)"

definition update_player_rank :: "database \<Rightarrow> string \<Rightarrow> int \<Rightarrow> database" where
  "update_player_rank d nm rk =
     d\<lparr>rows := map (\<lambda>r. if col_name r = nm then r\<lparr>col_rank := rk\<rparr> else r) (rows d)\<rparr>"

text \<open>\<^verbatim>\<open>select name from players order by skill desc\<close>.  SQL leaves the order of rows of
  equal skill open; here they keep their table order.\<close>

definition order_by_skill_desc :: "row list \<Rightarrow> row list" where
  "order_by_skill_desc rs = sort_key (\<lambda>r. - col_skill r) rs"

text \<open>The query is fetched whole before the loop starts, so the loop runs over the names
  as they were ordered beforehand.\<close>

definition update_player_ranks :: "database \<Rightarrow> database" where
  "update_player_ranks d =
     fold (\<lambda>(i, p) d'. update_player_rank d' p (int i + 1))
       (enumerate 0 (map col_name (order_by_skill_desc (rows d)))) d"

text \<open>What that loop does to a single row, given the start of the numbering and the names
  in query order: every name in turn stamps the rows that carry it.\<close>

fun assign_ranks :: "nat \<Rightarrow> string list \<Rightarrow> row \<Rightarrow> row" where
  "assign_ranks k [] r = r"
| "assign_ranks k (n # ns) r =
     assign_ranks (Suc k) ns (if col_name r = n then r\<lparr>col_rank := int k + 1\<rparr> else r)"

definition activate_player :: "database \<Rightarrow> string \<Rightarrow> database" where
  "activate_player d nm =
     d\<lparr>rows := map (\<lambda>r. if col_name r = nm then r\<lparr>col_active := 1\<rparr> else r) (rows d)\<rparr>"

definition deactivate_player :: "database \<Rightarrow> string \<Rightarrow> database" where
  "deactivate_player d nm =
     d\<lparr>rows := map (\<lambda>r. if col_name r = nm then r\<lparr>col_active := 0\<rparr> else r) (rows d)\<rparr>"

definition parse_player_record :: "row \<Rightarrow> player" where
  "parse_player_record r =
     \<lparr>name = col_name r, path = col_path r, last_seen = col_lastseen r, rank = col_rank r,
      skill = col_skill r, mu = col_mu r, sigma = col_sigma r, ngames = col_ngames r,
      active = col_active r\<rparr>"

section \<open>The random source\<close>

text \<open>The random module is driven by a supply of natural numbers, consumed from the
  front; an exhausted supply yields zeros.  \<^verbatim>\<open>random.randint(a, b)\<close> raises
  \<^verbatim>\<open>ValueError\<close> on an empty range and otherwise returns a member of \<open>a..b\<close>; every
  member is returned for some supply.  Up to Python 3.11 a float argument is accepted
  when its value is integral and raises \<^verbatim>\<open>ValueError\<close> otherwise.\<close>

type_synonym rng = "nat list"

definition draw :: "rng \<Rightarrow> nat \<times> rng" where
  "draw g = (case g of [] \<Rightarrow> (0, []) | r # rs \<Rightarrow> (r, rs))"

definition randint_int :: "rng \<Rightarrow> int \<Rightarrow> int \<Rightarrow> error + (int \<times> rng)" where
  "randint_int g a b =
     (if b < a then Inl ValueError
      else (case draw g of (r, g') \<Rightarrow> Inr (a + int (r mod nat (b - a + 1)), g')))"

definition randint :: "rng \<Rightarrow> real \<Rightarrow> real \<Rightarrow> error + (int \<times> rng)" where
  "randint g a b =
     (if of_int \<lfloor>a\<rfloor> \<noteq> a then Inl ValueError
      else if of_int \<lfloor>b\<rfloor> \<noteq> b then Inl ValueError
      else randint_int g \<lfloor>a\<rfloor> \<lfloor>b\<rfloor>)"

section \<open>class Manager\<close>

text \<open>Field \<open>players\<close> is the list of \<^verbatim>\<open>Player\<close> objects that \<^verbatim>\<open>run_matches\<close> loads;
  a position in it identifies the object.\<close>

record manager =
  halite_binary :: string
  players :: "player list"
  size_min :: int
  size_max :: int
  players_min :: int
  players_max :: int
  rounds :: int
  round_count :: int
  keep_replays :: bool
  db :: database

text \<open>\<^verbatim>\<open>Manager(halite_binary, players, size_min, size_max, players_min, players_max,
  rounds)\<close> over a database, and the manager of the command line, which passes the
  binary alone and so takes every default.\<close>

definition Manager_init ::
  "string \<Rightarrow> player list \<Rightarrow> int \<Rightarrow> int \<Rightarrow> int \<Rightarrow> int \<Rightarrow> int \<Rightarrow> database \<Rightarrow> manager" where
  "Manager_init binary ps smin smax pmin pmax n d =
     \<lparr>halite_binary = binary, players = ps, size_min = smin, size_max = smax,
      players_min = pmin, players_max = pmax, rounds = n, round_count = 0,
      keep_replays = True, db = d\<rparr>"

definition Manager_default :: "string \<Rightarrow> database \<Rightarrow> manager" where
  "Manager_default binary d = Manager_init binary [] 20 50 2 6 (- 1) d"



text \<open>\<^verbatim>\<open>pick_players(num)\<close>: the loop runs \<open>num\<close> times (not at all for \<open>num \<le> 0\<close>), each
  time drawing a position of \<open>open_set\<close> and removing the value found there.\<close>

fun pick_loop :: "rng \<Rightarrow> nat list \<Rightarrow> nat list \<Rightarrow> nat \<Rightarrow> error + (nat list \<times> rng)" where
  "pick_loop g open_set chosen_so_far 0 = Inr (chosen_so_far, g)"
| "pick_loop g open_set chosen_so_far (Suc k) =
     (case randint_int g 0 (int (length open_set) - 1) of
        Inl e \<Rightarrow> Inl e
      | Inr (j, g') \<Rightarrow>
          (let chosen = open_set ! nat j
           in pick_loop g' (remove1 chosen open_set) (chosen_so_far @ [chosen]) k))"

definition pick_players :: "manager \<Rightarrow> rng \<Rightarrow> int \<Rightarrow> error + (nat list \<times> rng)" where
  "pick_players mg g num = pick_loop g [0..<length (players mg)] [] (nat num)"

text \<open>The body of the loop of \<^verbatim>\<open>run_rounds\<close> up to the call of \<^verbatim>\<open>run_round\<close>.  In
  \<^verbatim>\<open>size_min / 5\<close> the division is Python 3's true division, so \<^verbatim>\<open>randint\<close> receives
  floats.\<close>

definition pick_size :: "rng \<Rightarrow> int \<Rightarrow> int \<Rightarrow> error + ((int \<times> int) \<times> rng)" where
  "pick_size g smin smax =
     (case randint g (of_int smin / 5) (of_int smax / 5) of
        Inl e \<Rightarrow> Inl e
      | Inr (k, g') \<Rightarrow> (let size_w = k * 5; size_h = size_w in Inr ((size_w, size_h), g')))"

definition round_setup :: "manager \<Rightarrow> rng \<Rightarrow> error + ((nat list \<times> int \<times> int \<times> int) \<times> rng)" where
  "round_setup mg g =
     (case randint_int g 2 (min (players_max mg) (int (length (players mg)))) of
        Inl e \<Rightarrow> Inl e
      | Inr (num, g1) \<Rightarrow>
         (case pick_players mg g1 num of
            Inl e \<Rightarrow> Inl e
          | Inr (ps, g2) \<Rightarrow>
             (case pick_size g2 (size_min mg) (size_max mg) of
                Inl e \<Rightarrow> Inl e
              | Inr ((size_w, size_h), g3) \<Rightarrow>
                 (case randint_int g3 10000 2073741824 of
                    Inl e \<Rightarrow> Inl e
                  | Inr (seed, g4) \<Rightarrow> Inr ((ps, size_w, size_h, seed), g4)))))"



text \<open>\<^verbatim>\<open>Manager.add_player\<close>; the first component of the result is what it prints.\<close>

definition Manager_add_player ::
  "manager \<Rightarrow> string \<Rightarrow> string \<Rightarrow> string \<Rightarrow> string list \<times> (error + manager)" where
  "Manager_add_player mg now nm pth =
     (let p = get_player (db mg) [nm] in
      if length p = 0 then
        (case Database_add_player (db mg) now nm pth of
           Inl e \<Rightarrow> ([], Inl e)
         | Inr d \<Rightarrow> ([], Inr (mg\<lparr>db := d\<rparr>)))
      else ([''Bot name '' @ nm @ '' already used, no bot added''], Inr mg))"


section \<open>Example data\<close>





text \<open>A table of five active players and a manager constructed over them with
  \<^verbatim>\<open>players_min=3\<close>, the other arguments at their defaults.\<close>

definition example_db5 :: database where
  "example_db5 =
     \<lparr>rows = map (\<lambda>(i, nm).
                \<lparr>col_id = i, col_name = nm, col_path = ''./'' @ nm,
                 col_lastseen = ''01.01.2017 10:00:00'', col_rank = 1000, col_skill = 0,
                 col_mu = 50, col_sigma = 50 / 3, col_ngames = 0, col_active = 1\<rparr>)
              [(1, ''a''), (2, ''b''), (3, ''c''), (4, ''d''), (5, ''e'')],
      autoinc = 5\<rparr>"

definition example_manager5 :: manager where
  "example_manager5 =
     Manager_init ''./halite'' (map parse_player_record (rows example_db5)) 20 50 3 6 (- 1)
       example_db5"

section \<open>The result parser\<close>

lemma py_split_nonempty: "py_split sep s \<noteq> []"
  by (induction s) (auto split: list.splits)

lemma py_split_append:
  "sep \<notin> set h \<Longrightarrow> py_split sep (h @ sep # rest) = h # py_split sep rest"
  by (induction h) (auto split: list.splits)

lemma parse_line_num_players:
  "parse_line m c l = Inr m' \<Longrightarrow> num_players m' = num_players m"
  by (auto simp: parse_line_def Let_def split: if_splits sum.splits option.splits)

lemma parse_loop_num_players:
  "parse_loop m c ls = Inr m' \<Longrightarrow> num_players m' = num_players m"
proof (induction ls arbitrary: m c)
  case Nil
  then show ?case by simp
next
  case (Cons l ls)
  then show ?case
    by (auto split: sum.splits dest: parse_line_num_players)
qed

lemma parse_loop_append:
  "parse_loop m c (xs @ ys) =
     (case parse_loop m c xs of Inl e \<Rightarrow> Inl e | Inr m' \<Rightarrow> parse_loop m' (c + length xs) ys)"
  by (induction xs arbitrary: m c) (auto split: sum.splits)

lemma parse_line_bad_token:
  assumes "num_players m < c" and "c \<le> 2 * num_players m"
    and "py_split (CHR '' '') l = t0 # ts"
    and "py_int t0 = None \<or> (ts \<noteq> [] \<and> py_int (hd ts) = None)"
  shows "parse_line m c l = Inl ValueError"
  using assms
  by (cases ts) (auto simp: parse_line_def list_getitem_def Let_def split: option.splits)

lemma parse_loop_bad_token:
  assumes "i < length ls" and "num_players m < c + i" and "c + i \<le> 2 * num_players m"
    and "py_split (CHR '' '') (ls ! i) = t0 # ts"
    and "py_int t0 = None \<or> (ts \<noteq> [] \<and> py_int (hd ts) = None)"
  shows "\<exists>e. parse_loop m c ls = Inl e"
  using assms
proof (induction ls arbitrary: m c i)
  case Nil
  then show ?case by simp
next
  case (Cons l ls)
  show ?case
  proof (cases i)
    case 0
    with Cons.prems have "parse_line m c l = Inl ValueError"
      by (intro parse_line_bad_token[where ?t0.0 = t0 and ts = ts]) auto
    then show ?thesis by simp
  next
    case (Suc j)
    show ?thesis
    proof (cases "parse_line m c l")
      case (Inl e)
      then show ?thesis by simp
    next
      case (Inr m')
      then have n: "num_players m' = num_players m"
        by (rule parse_line_num_players)
      have "\<exists>e. parse_loop m' (c + 1) ls = Inl e"
        using Cons.prems Suc n
        by (intro Cons.IH[where i = j]) auto
      with Inr show ?thesis by simp
    qed
  qed
qed

lemma py_int_1: "py_int ''1'' = Some 1"
  by code_simp

lemma py_int_2: "py_int ''2'' = Some 2"
  by code_simp

lemma example_tail_lines:
  "py_split (CHR 0x0A)
     (''replay123.hlt extra'' @ [CHR 0x0A] @ ''1 1'' @ [CHR 0x0A] @ ''2 2'' @ [CHR 0x0A] @ ''0 0'')
   = [''replay123.hlt extra'', ''1 1'', ''2 2'', ''0 0'']"
  by code_simp

lemma example_tokens:
  "py_split (CHR '' '') ''replay123.hlt extra'' = [''replay123.hlt'', ''extra'']"
  "py_split (CHR '' '') ''1 1'' = [''1'', ''1'']"
  "py_split (CHR '' '') ''2 2'' = [''2'', ''2'']"
  "py_split (CHR '' '') ''0 0'' = [''0'', ''0'']"
  by code_simp+

text \<open>
  \<^bold>\<open>C3.\<close>  For two participants and the engine output made of two header lines (any text
  without a newline), the line \<^verbatim>\<open>replay123.hlt extra\<close>, then \<^verbatim>\<open>1 1\<close>, \<^verbatim>\<open>2 2\<close> and
  \<^verbatim>\<open>0 0\<close>, \<^verbatim>\<open>parse_results_string\<close> returns without an exception, the results are
  \<open>[1, 2]\<close> and the replay file is \<^verbatim>\<open>replay123.hlt\<close>, the first space-delimited token
  of the replay line.
\<close>

theorem parse_results_string_example:
  assumes "CHR 0x0A \<notin> set h1" and "CHR 0x0A \<notin> set h2"
  shows "map_sum id (\<lambda>m'. (results m', replay_file m'))
           (parse_results_string
              ((Match_init heap [a, b] w h seed t k)
                 \<lparr>results_string :=
                    h1 @ [CHR 0x0A] @ h2 @ [CHR 0x0A] @ ''replay123.hlt extra'' @ [CHR 0x0A] @
                    ''1 1'' @ [CHR 0x0A] @ ''2 2'' @ [CHR 0x0A] @ ''0 0''\<rparr>))
         = Inr ([1, 2], ''replay123.hlt'')"
proof -
  define out where
    "out = h1 @ [CHR 0x0A] @ h2 @ [CHR 0x0A] @ ''replay123.hlt extra'' @ [CHR 0x0A] @
           ''1 1'' @ [CHR 0x0A] @ ''2 2'' @ [CHR 0x0A] @ ''0 0''"
  have lines: "py_split (CHR 0x0A) out = [h1, h2, ''replay123.hlt extra'', ''1 1'', ''2 2'', ''0 0'']"
    unfolding out_def using assms example_tail_lines by (simp add: py_split_append)
  have "map_sum id (\<lambda>m'. (results m', replay_file m'))
          (parse_results_string ((Match_init heap [a, b] w h seed t k)\<lparr>results_string := out\<rparr>))
        = Inr ([1, 2], ''replay123.hlt'')"
    unfolding parse_results_string_def
    by (simp add: lines Match_init_def parse_line_def list_getitem_def list_setitem_def
        example_tokens py_int_1 py_int_2 Let_def del: py_split.simps)
  then show ?thesis
    unfolding out_def .
qed

theorem parse_results_string_example_witness:
  "CHR 0x0A \<notin> set ''Player one'' \<and> CHR 0x0A \<notin> set ''Player two'' \<and>
   map_sum id (\<lambda>m'. (results m', replay_file m'))
     (parse_results_string
        ((Match_init [Player_init ''one'' ''./one'', Player_init ''two'' ''./two''] [0, 1]
            20 20 12345 800 True)
           \<lparr>results_string :=
              ''Player one'' @ [CHR 0x0A] @ ''Player two'' @ [CHR 0x0A] @
              ''replay123.hlt extra'' @ [CHR 0x0A] @
              ''1 1'' @ [CHR 0x0A] @ ''2 2'' @ [CHR 0x0A] @ ''0 0''\<rparr>))
   = Inr ([1, 2], ''replay123.hlt'')"
  using parse_results_string_example [of "''Player one''" "''Player two''"
      "[Player_init ''one'' ''./one'', Player_init ''two'' ''./two'']" 0 1 20 20 12345 800 True]
  by simp

text \<open>
  \<^bold>\<open>C10.\<close>  On a rank line (a line whose position \<open>c\<close> satisfies
  \<open>num_players < c \<le> 2 * num_players\<close>) whose two leading tokens are integers, the write
  into \<open>results\<close> is not guarded: with participant index 0 the line raises nothing and
  the rank lands on the last participant (Python index \<open>-1\<close>); with a participant index
  above \<open>num_players\<close> the line raises \<^verbatim>\<open>IndexError\<close>, not the \<^verbatim>\<open>ValueError\<close> of the
  parser's own checks.
\<close>

theorem parse_line_index_unguarded:
  assumes "num_players m < c" and "c \<le> 2 * num_players m"
    and "length (results m) = num_players m"
    and "py_split (CHR '' '') l = rtok # itok # rest"
    and "py_int rtok = Some r" and "py_int itok = Some idx"
  shows "(idx = 0 \<longrightarrow>
            parse_line m c l = Inr (m\<lparr>results := (results m)[num_players m - 1 := r]\<rparr>))
       \<and> (int (num_players m) < idx \<longrightarrow> parse_line m c l = Inl IndexError)"
  using assms
  by (auto simp: parse_line_def list_getitem_def list_setitem_def Let_def nat_diff_distrib')

lemma py_int_0: "py_int ''0'' = Some 0"
  by code_simp

lemma py_int_3: "py_int ''3'' = Some 3"
  by code_simp

theorem parse_line_index_unguarded_witness:
  "parse_line (Match_init [Player_init ''one'' ''./one'', Player_init ''two'' ''./two''] [0, 1]
                 20 20 12345 800 True) 3 ''7 0''
     = Inr ((Match_init [Player_init ''one'' ''./one'', Player_init ''two'' ''./two''] [0, 1]
                 20 20 12345 800 True)\<lparr>results := [0, 7]\<rparr>)
   \<and> parse_line (Match_init [Player_init ''one'' ''./one'', Player_init ''two'' ''./two''] [0, 1]
                 20 20 12345 800 True) 3 ''7 3''
     = Inl IndexError"
proof -
  let ?m = "Match_init [Player_init ''one'' ''./one'', Player_init ''two'' ''./two''] [0, 1]
                 20 20 12345 800 True"
  have n: "num_players ?m < 3" "3 \<le> 2 * num_players ?m" "length (results ?m) = num_players ?m"
    by (simp_all add: Match_init_def)
  have s0: "py_split (CHR '' '') ''7 0'' = ''7'' # ''0'' # []"
    and s3: "py_split (CHR '' '') ''7 3'' = ''7'' # ''3'' # []"
    by code_simp+
  have r: "py_int ''7'' = Some 7"
    by code_simp
  have a: "parse_line ?m 3 ''7 0'' = Inr (?m\<lparr>results := (results ?m)[num_players ?m - 1 := 7]\<rparr>)"
    using parse_line_index_unguarded [OF n s0 r py_int_0] by simp
  have b: "parse_line ?m 3 ''7 3'' = Inl IndexError"
    using parse_line_index_unguarded [OF n s3 r py_int_3] by (simp add: Match_init_def)
  from a b show ?thesis
    by (simp add: Match_init_def)
qed

text \<open>The same on whole outputs for two participants: with the rank lines \<^verbatim>\<open>1 0\<close> and
  \<^verbatim>\<open>2 1\<close> the parser returns, and rank 1 has gone to participant 2; with \<^verbatim>\<open>1 3\<close> it
  raises \<^verbatim>\<open>IndexError\<close>.\<close>

lemma parse_results_string_index_examples:
  "map_sum id results
     (parse_results_string
        ((Match_init [Player_init ''one'' ''./one'', Player_init ''two'' ''./two''] [0, 1]
            20 20 12345 800 True)
           \<lparr>results_string :=
              ''Player one'' @ [CHR 0x0A] @ ''Player two'' @ [CHR 0x0A] @
              ''r.hlt 12345'' @ [CHR 0x0A] @
              ''1 0'' @ [CHR 0x0A] @ ''2 1'' @ [CHR 0x0A] @ ''0 0''\<rparr>))
   = Inr [2, 1]"
  "map_sum id results
     (parse_results_string
        ((Match_init [Player_init ''one'' ''./one'', Player_init ''two'' ''./two''] [0, 1]
            20 20 12345 800 True)
           \<lparr>results_string :=
              ''Player one'' @ [CHR 0x0A] @ ''Player two'' @ [CHR 0x0A] @
              ''r.hlt 12345'' @ [CHR 0x0A] @
              ''1 3'' @ [CHR 0x0A] @ ''2 1'' @ [CHR 0x0A] @ ''0 0''\<rparr>))
   = Inl IndexError"
  by code_simp+

text \<open>
  \<^bold>\<open>C2\<close>, as the claim states it, fails: the parser checks the number of lines and
  converts two tokens of each rank line, and nothing else.  Output in which both rank
  lines name participant 1 is accepted and leaves participant 2 with the initial filler
  0; output with surplus tokens on the rank lines, a single time-out marker for two
  participants and a surplus last line is accepted as well.
\<close>

theorem parse_accepts_protocol_deviations:
  "map_sum id results
     (parse_results_string
        ((Match_init [Player_init ''one'' ''./one'', Player_init ''two'' ''./two''] [0, 1]
            20 20 12345 800 True)
           \<lparr>results_string :=
              ''Player one'' @ [CHR 0x0A] @ ''Player two'' @ [CHR 0x0A] @
              ''r.hlt 12345'' @ [CHR 0x0A] @
              ''1 1'' @ [CHR 0x0A] @ ''2 1'' @ [CHR 0x0A] @ ''0 0''\<rparr>))
   = Inr [2, 0]
   \<and> map_sum id results
     (parse_results_string
        ((Match_init [Player_init ''one'' ''./one'', Player_init ''two'' ''./two''] [0, 1]
            20 20 12345 800 True)
           \<lparr>results_string :=
              ''Player one'' @ [CHR 0x0A] @ ''Player two'' @ [CHR 0x0A] @
              ''r.hlt 12345'' @ [CHR 0x0A] @
              ''1 1 junk'' @ [CHR 0x0A] @ ''2 2 more junk'' @ [CHR 0x0A] @ ''0'' @ [CHR 0x0A] @
              ''not part of the protocol''\<rparr>))
   = Inr [1, 2]"
  by code_simp

text \<open>
  \<^bold>\<open>C2\<close>, amended.  With fewer than \<open>2 * num_players + 2\<close> lines the parser raises
  \<^verbatim>\<open>ValueError\<close>.  With enough lines, a rank line (position \<open>i\<close> with
  \<open>num_players < i \<le> 2 * num_players\<close>) whose rank token, or whose participant-index
  token when present, is not an integer literal makes the parser raise: no result is
  returned, and the exception is \<^verbatim>\<open>ValueError\<close> whenever the lines before line \<open>i\<close>
  went through without an exception (an earlier rank line may raise \<^verbatim>\<open>IndexError\<close>
  first).
\<close>

theorem parse_results_string_failures:
  "(length (py_split (CHR 0x0A) (results_string m)) < 2 * num_players m + 2
      \<longrightarrow> parse_results_string m = Inl ValueError)
   \<and> (2 * num_players m + 2 \<le> length (py_split (CHR 0x0A) (results_string m))
      \<and> num_players m < i \<and> i \<le> 2 * num_players m
      \<and> py_split (CHR '' '') (py_split (CHR 0x0A) (results_string m) ! i) = t0 # ts
      \<and> (py_int t0 = None \<or> (ts \<noteq> [] \<and> py_int (hd ts) = None))
      \<longrightarrow> (\<exists>e. parse_results_string m = Inl e)
        \<and> ((\<exists>m1. parse_loop m 0 (take i (py_split (CHR 0x0A) (results_string m))) = Inr m1)
             \<longrightarrow> parse_results_string m = Inl ValueError))"
proof (intro conjI impI)
  assume "length (py_split (CHR 0x0A) (results_string m)) < 2 * num_players m + 2"
  then show "parse_results_string m = Inl ValueError"
    by (simp add: parse_results_string_def Let_def)
next
  define lines where "lines = py_split (CHR 0x0A) (results_string m)"
  assume "2 * num_players m + 2 \<le> length (py_split (CHR 0x0A) (results_string m))
      \<and> num_players m < i \<and> i \<le> 2 * num_players m
      \<and> py_split (CHR '' '') (py_split (CHR 0x0A) (results_string m) ! i) = t0 # ts
      \<and> (py_int t0 = None \<or> (ts \<noteq> [] \<and> py_int (hd ts) = None))"
  then have a: "2 * num_players m + 2 \<le> length lines" "num_players m < i" "i \<le> 2 * num_players m"
     "py_split (CHR '' '') (lines ! i) = t0 # ts"
     "py_int t0 = None \<or> (ts \<noteq> [] \<and> py_int (hd ts) = None)"
    unfolding lines_def by simp_all
  then have i: "i < length lines" by simp
  have p: "parse_results_string m = parse_loop m 0 lines"
    using a by (simp add: parse_results_string_def lines_def Let_def)
  show "\<exists>e. parse_results_string m = Inl e"
    unfolding p using a i
    by (intro parse_loop_bad_token[where i = i and ?t0.0 = t0 and ts = ts]) auto
  assume "\<exists>m1. parse_loop m 0 (take i (py_split (CHR 0x0A) (results_string m))) = Inr m1"
  then obtain m1 where m1: "parse_loop m 0 (take i lines) = Inr m1"
    unfolding lines_def ..
  then have n: "num_players m1 = num_players m"
    by (rule parse_loop_num_players)
  have l: "parse_line m1 i (lines ! i) = Inl ValueError"
    using a n by (intro parse_line_bad_token[where ?t0.0 = t0 and ts = ts]) auto
  have "lines = take i lines @ (lines ! i) # drop (Suc i) lines"
    using i by (simp add: id_take_nth_drop)
  then have "parse_loop m 0 lines = parse_loop m 0 (take i lines @ (lines ! i) # drop (Suc i) lines)"
    by simp
  also have "\<dots> = Inl ValueError"
    using m1 l i by (simp add: parse_loop_append del: append_take_drop_id)
  finally show "parse_results_string m = Inl ValueError"
    using p by simp
qed

lemma short_lines:
  "py_split (CHR 0x0A) (''Player one'' @ [CHR 0x0A] @ ''Player two'' @ [CHR 0x0A] @ ''r.hlt 12345'')
    = [''Player one'', ''Player two'', ''r.hlt 12345'']"
  by code_simp

lemma bad_lines:
  "py_split (CHR 0x0A) (''Player one'' @ [CHR 0x0A] @ ''Player two'' @ [CHR 0x0A] @
              ''r.hlt 12345'' @ [CHR 0x0A] @ ''1 1'' @ [CHR 0x0A] @ ''2 two'' @ [CHR 0x0A] @ ''0 0'')
    = [''Player one'', ''Player two'', ''r.hlt 12345'', ''1 1'', ''2 two'', ''0 0'']"
  by code_simp

theorem parse_results_string_failures_witness:
  "parse_results_string
        ((Match_init [Player_init ''one'' ''./one'', Player_init ''two'' ''./two''] [0, 1]
            20 20 12345 800 True)
           \<lparr>results_string :=
              ''Player one'' @ [CHR 0x0A] @ ''Player two'' @ [CHR 0x0A] @ ''r.hlt 12345''\<rparr>)
     = Inl ValueError
   \<and> parse_results_string
        ((Match_init [Player_init ''one'' ''./one'', Player_init ''two'' ''./two''] [0, 1]
            20 20 12345 800 True)
           \<lparr>results_string :=
              ''Player one'' @ [CHR 0x0A] @ ''Player two'' @ [CHR 0x0A] @
              ''r.hlt 12345'' @ [CHR 0x0A] @ ''1 1'' @ [CHR 0x0A] @ ''2 two'' @ [CHR 0x0A] @ ''0 0''\<rparr>)
     = Inl ValueError"
proof -
  let ?m = "Match_init [Player_init ''one'' ''./one'', Player_init ''two'' ''./two''] [0, 1]
            20 20 12345 800 True"
  let ?short = "?m\<lparr>results_string :=
              ''Player one'' @ [CHR 0x0A] @ ''Player two'' @ [CHR 0x0A] @ ''r.hlt 12345''\<rparr>"
  let ?bad = "?m\<lparr>results_string :=
              ''Player one'' @ [CHR 0x0A] @ ''Player two'' @ [CHR 0x0A] @
              ''r.hlt 12345'' @ [CHR 0x0A] @ ''1 1'' @ [CHR 0x0A] @ ''2 two'' @ [CHR 0x0A] @ ''0 0''\<rparr>"
  have n: "num_players ?short = 2" "num_players ?bad = 2"
    by (simp_all add: Match_init_def)
  have "length (py_split (CHR 0x0A) (results_string ?short)) < 2 * num_players ?short + 2"
    using short_lines by (simp add: Match_init_def)
  then have a: "parse_results_string ?short = Inl ValueError"
    using parse_results_string_failures [of ?short] by blast
  have l: "py_split (CHR 0x0A) (results_string ?bad)
      = [''Player one'', ''Player two'', ''r.hlt 12345'', ''1 1'', ''2 two'', ''0 0'']"
    using bad_lines by simp
  have t: "py_split (CHR '' '') ''2 two'' = ''2'' # [''two'']"
    by code_simp
  have v: "py_int ''two'' = None"
    by code_simp
  have pre: "\<exists>m1. parse_loop ?bad 0 (take 4 (py_split (CHR 0x0A) (results_string ?bad))) = Inr m1"
    unfolding l
    by (simp add: Match_init_def parse_line_def list_getitem_def list_setitem_def
        example_tokens py_int_1 py_split_nonempty Let_def del: py_split.simps)
  have "2 * num_players ?bad + 2 \<le> length (py_split (CHR 0x0A) (results_string ?bad))
      \<and> num_players ?bad < 4 \<and> 4 \<le> 2 * num_players ?bad
      \<and> py_split (CHR '' '') (py_split (CHR 0x0A) (results_string ?bad) ! 4) = ''2'' # [''two'']
      \<and> (py_int ''2'' = None \<or> ([''two''] \<noteq> [] \<and> py_int (hd [''two'']) = None))"
    unfolding l n using t v by simp
  then have b: "parse_results_string ?bad = Inl ValueError"
    using parse_results_string_failures [of ?bad 4 "''2''" "[''two'']"] pre by blast
  from a b show ?thesis by simp
qed

section \<open>The player table\<close>

lemma fold_update_player_rank:
  "fold (\<lambda>(i, p) d'. update_player_rank d' p (int i + 1)) (enumerate k ns) d
     = d\<lparr>rows := map (assign_ranks k ns) (rows d)\<rparr>"
proof (induction ns arbitrary: k d)
  case Nil
  then show ?case by simp
next
  case (Cons n ns)
  have "fold (\<lambda>(i, p) d'. update_player_rank d' p (int i + 1)) (enumerate k (n # ns)) d
      = fold (\<lambda>(i, p) d'. update_player_rank d' p (int i + 1)) (enumerate (Suc k) ns)
          (update_player_rank d n (int k + 1))"
    by simp
  also have "\<dots> = (update_player_rank d n (int k + 1))
      \<lparr>rows := map (assign_ranks (Suc k) ns) (rows (update_player_rank d n (int k + 1)))\<rparr>"
    by (rule Cons.IH)
  also have "\<dots> = d\<lparr>rows := map (assign_ranks k (n # ns)) (rows d)\<rparr>"
    by (simp add: update_player_rank_def comp_def)
  finally show ?case .
qed

lemma assign_ranks_name [simp]: "col_name (assign_ranks k ns r) = col_name r"
  by (induction ns arbitrary: k r) auto

lemma assign_ranks_skill [simp]: "col_skill (assign_ranks k ns r) = col_skill r"
  by (induction ns arbitrary: k r) auto

lemma assign_ranks_only_rank: "(assign_ranks k ns r)\<lparr>col_rank := x\<rparr> = r\<lparr>col_rank := x\<rparr>"
  by (induction ns arbitrary: k r) auto

lemma assign_ranks_notin: "col_name r \<notin> set ns \<Longrightarrow> assign_ranks k ns r = r"
  by (induction ns arbitrary: k) auto

lemma assign_ranks_nth:
  "distinct ns \<Longrightarrow> j < length ns \<Longrightarrow> col_name r = ns ! j \<Longrightarrow>
     col_rank (assign_ranks k ns r) = int (k + j) + 1"
proof (induction ns arbitrary: k r j)
  case Nil
  then show ?case by simp
next
  case (Cons n ns)
  show ?case
  proof (cases j)
    case 0
    with Cons.prems show ?thesis
      by (simp add: assign_ranks_notin)
  next
    case (Suc j')
    with Cons.prems have "col_name r \<noteq> n"
      by auto
    with Cons.prems Suc show ?thesis
      using Cons.IH[of j' r "Suc k"] by simp
  qed
qed

lemma insort_key_map_commute:
  "(\<And>x. f (g x) = f x) \<Longrightarrow> insort_key f (g x) (map g xs) = map g (insort_key f x xs)"
  by (induction xs) auto

lemma sort_key_map_commute:
  "(\<And>x. f (g x) = f x) \<Longrightarrow> sort_key f (map g xs) = map g (sort_key f xs)"
  by (induction xs) (auto simp: insort_key_map_commute)

lemma rows_update_player_ranks:
  "rows (update_player_ranks d)
     = map (assign_ranks 0 (map col_name (order_by_skill_desc (rows d)))) (rows d)"
  by (simp add: update_player_ranks_def fold_update_player_rank)

lemma ranks_in_skill_order:
  assumes "distinct (map col_name (rows d))"
  shows "map col_rank (order_by_skill_desc (rows (update_player_ranks d)))
           = map (\<lambda>j. int j + 1) [0..<length (rows d)]"
proof -
  let ?q = "order_by_skill_desc (rows d)"
  let ?ns = "map col_name ?q"
  have dq: "distinct ?ns"
    using assms by (simp add: distinct_map order_by_skill_desc_def)
  have "order_by_skill_desc (rows (update_player_ranks d)) = map (assign_ranks 0 ?ns) ?q"
    unfolding rows_update_player_ranks
    unfolding order_by_skill_desc_def
    by (rule sort_key_map_commute) simp
  moreover have "map col_rank (map (assign_ranks 0 ?ns) ?q) = map (\<lambda>j. int j + 1) [0..<length (rows d)]"
  proof (rule nth_equalityI)
    show "length (map col_rank (map (assign_ranks 0 ?ns) ?q)) = length (map (\<lambda>j. int j + 1) [0..<length (rows d)])"
      by (simp add: order_by_skill_desc_def)
  next
    fix j
    assume "j < length (map col_rank (map (assign_ranks 0 ?ns) ?q))"
    then have j: "j < length ?q" by simp
    then have "col_rank (assign_ranks 0 ?ns (?q ! j)) = int (0 + j) + 1"
      using dq by (intro assign_ranks_nth) auto
    with j show "map col_rank (map (assign_ranks 0 ?ns) ?q) ! j = map (\<lambda>j. int j + 1) [0..<length (rows d)] ! j"
      by (simp add: order_by_skill_desc_def)
  qed
  ultimately show ?thesis by simp
qed

text \<open>
  \<^bold>\<open>C6.\<close>  On a table whose names are pairwise different (the column is declared
  \<^verbatim>\<open>unique\<close>), \<^verbatim>\<open>update_player_ranks\<close> changes nothing but the ranks; read in the order
  of skill descending the new ranks are 1, 2, ..., N; so they are pairwise different and
  fill \<open>{1..N}\<close> exactly, for any N including 0; and a row of greater skill has the
  smaller rank.
\<close>

theorem update_player_ranks_dense:
  assumes "distinct (map col_name (rows d))"
  shows "map (\<lambda>r. r\<lparr>col_rank := 0\<rparr>) (rows (update_player_ranks d)) = map (\<lambda>r. r\<lparr>col_rank := 0\<rparr>) (rows d)
     \<and> map col_rank (order_by_skill_desc (rows (update_player_ranks d)))
           = map (\<lambda>j. int j + 1) [0..<length (rows d)]
     \<and> distinct (map col_rank (rows (update_player_ranks d)))
     \<and> set (map col_rank (rows (update_player_ranks d))) = {1..int (length (rows d))}
     \<and> (\<forall>r \<in> set (rows (update_player_ranks d)). \<forall>r' \<in> set (rows (update_player_ranks d)).
           col_skill r' < col_skill r \<longrightarrow> col_rank r < col_rank r')"
proof (intro conjI ballI impI)
  let ?d' = "update_player_ranks d"
  let ?q' = "order_by_skill_desc (rows ?d')"
  let ?N = "length (rows d)"
  show "map (\<lambda>r. r\<lparr>col_rank := 0\<rparr>) (rows ?d') = map (\<lambda>r. r\<lparr>col_rank := 0\<rparr>) (rows d)"
    by (simp add: rows_update_player_ranks assign_ranks_only_rank)
  show b: "map col_rank ?q' = map (\<lambda>j. int j + 1) [0..<?N]"
    using assms by (rule ranks_in_skill_order)
  have len: "length (rows ?d') = ?N"
    by (simp add: rows_update_player_ranks)
  have "set (map col_rank (rows ?d')) = set (map col_rank ?q')"
    by (simp add: order_by_skill_desc_def)
  also have "\<dots> = (\<lambda>j. int j + 1) ` {0..<?N}"
    unfolding b by simp
  also have "\<dots> = {1..int ?N}"
  proof
    show "(\<lambda>j. int j + 1) ` {0..<?N} \<subseteq> {1..int ?N}" by auto
    show "{1..int ?N} \<subseteq> (\<lambda>j. int j + 1) ` {0..<?N}"
    proof
      fix x assume "x \<in> {1..int ?N}"
      then have "x = int (nat (x - 1)) + 1" "nat (x - 1) \<in> {0..<?N}" by auto
      then show "x \<in> (\<lambda>j. int j + 1) ` {0..<?N}" by blast
    qed
  qed
  finally show s: "set (map col_rank (rows ?d')) = {1..int ?N}" .
  have "card (set (map col_rank (rows ?d'))) = length (map col_rank (rows ?d'))"
    unfolding s using len by simp
  then show "distinct (map col_rank (rows ?d'))"
    by (rule card_distinct)
  fix r r'
  assume r: "r \<in> set (rows ?d')" and r': "r' \<in> set (rows ?d')" and lt: "col_skill r' < col_skill r"
  have lq: "length ?q' = ?N"
    using len by (simp add: order_by_skill_desc_def)
  from r obtain a where a: "a < ?N" "?q' ! a = r"
    using lq by (metis in_set_conv_nth order_by_skill_desc_def set_sort)
  from r' obtain a' where a': "a' < ?N" "?q' ! a' = r'"
    using lq by (metis in_set_conv_nth order_by_skill_desc_def set_sort)
  have sorted: "sorted (map (\<lambda>r. - col_skill r) ?q')"
    by (simp add: order_by_skill_desc_def)
  have "a < a'"
  proof (rule ccontr)
    assume "\<not> a < a'"
    then have "a' \<le> a" by simp
    then have "map (\<lambda>r. - col_skill r) ?q' ! a' \<le> map (\<lambda>r. - col_skill r) ?q' ! a"
      using sorted a lq by (intro sorted_nth_mono) auto
    with a a' lq lt show False by simp
  qed
  moreover have "col_rank r = int a + 1" "col_rank r' = int a' + 1"
    using arg_cong[OF b, of "\<lambda>xs. xs ! a"] arg_cong[OF b, of "\<lambda>xs. xs ! a'"] a a' lq by simp_all
  ultimately show "col_rank r < col_rank r'" by simp
qed

theorem update_player_ranks_dense_witness:
  "distinct (map col_name (rows
      \<lparr>rows = [\<lparr>col_id = 1, col_name = ''one'', col_path = ''./one'', col_lastseen = ''01.01.2017 10:00:00'',
                 col_rank = 1000, col_skill = 1.5, col_mu = 25, col_sigma = 8, col_ngames = 4, col_active = 1\<rparr>,
               \<lparr>col_id = 2, col_name = ''two'', col_path = ''./two'', col_lastseen = ''01.01.2017 10:00:00'',
                 col_rank = 1, col_skill = 7, col_mu = 28, col_sigma = 7, col_ngames = 4, col_active = 0\<rparr>,
               \<lparr>col_id = 3, col_name = ''three'', col_path = ''./three'', col_lastseen = ''01.01.2017 10:00:00'',
                 col_rank = 1, col_skill = 3, col_mu = 27, col_sigma = 8, col_ngames = 4, col_active = 1\<rparr>],
       autoinc = 3\<rparr>))
   \<and> map col_rank (rows (update_player_ranks
      \<lparr>rows = [\<lparr>col_id = 1, col_name = ''one'', col_path = ''./one'', col_lastseen = ''01.01.2017 10:00:00'',
                 col_rank = 1000, col_skill = 1.5, col_mu = 25, col_sigma = 8, col_ngames = 4, col_active = 1\<rparr>,
               \<lparr>col_id = 2, col_name = ''two'', col_path = ''./two'', col_lastseen = ''01.01.2017 10:00:00'',
                 col_rank = 1, col_skill = 7, col_mu = 28, col_sigma = 7, col_ngames = 4, col_active = 0\<rparr>,
               \<lparr>col_id = 3, col_name = ''three'', col_path = ''./three'', col_lastseen = ''01.01.2017 10:00:00'',
                 col_rank = 1, col_skill = 3, col_mu = 27, col_sigma = 8, col_ngames = 4, col_active = 1\<rparr>],
       autoinc = 3\<rparr>)) = [3, 1, 2]
   \<and> set (map col_rank (rows (update_player_ranks
      \<lparr>rows = [\<lparr>col_id = 1, col_name = ''one'', col_path = ''./one'', col_lastseen = ''01.01.2017 10:00:00'',
                 col_rank = 1000, col_skill = 1.5, col_mu = 25, col_sigma = 8, col_ngames = 4, col_active = 1\<rparr>,
               \<lparr>col_id = 2, col_name = ''two'', col_path = ''./two'', col_lastseen = ''01.01.2017 10:00:00'',
                 col_rank = 1, col_skill = 7, col_mu = 28, col_sigma = 7, col_ngames = 4, col_active = 0\<rparr>,
               \<lparr>col_id = 3, col_name = ''three'', col_path = ''./three'', col_lastseen = ''01.01.2017 10:00:00'',
                 col_rank = 1, col_skill = 3, col_mu = 27, col_sigma = 8, col_ngames = 4, col_active = 1\<rparr>],
       autoinc = 3\<rparr>))) = {1..3}"
proof -
  let ?d = "\<lparr>rows = [\<lparr>col_id = 1, col_name = ''one'', col_path = ''./one'', col_lastseen = ''01.01.2017 10:00:00'',
                 col_rank = 1000, col_skill = 1.5, col_mu = 25, col_sigma = 8, col_ngames = 4, col_active = 1\<rparr>,
               \<lparr>col_id = 2, col_name = ''two'', col_path = ''./two'', col_lastseen = ''01.01.2017 10:00:00'',
                 col_rank = 1, col_skill = 7, col_mu = 28, col_sigma = 7, col_ngames = 4, col_active = 0\<rparr>,
               \<lparr>col_id = 3, col_name = ''three'', col_path = ''./three'', col_lastseen = ''01.01.2017 10:00:00'',
                 col_rank = 1, col_skill = 3, col_mu = 27, col_sigma = 8, col_ngames = 4, col_active = 1\<rparr>],
       autoinc = 3::nat\<rparr>"
  have h: "distinct (map col_name (rows ?d))"
    by simp
  have "set (map col_rank (rows (update_player_ranks ?d))) = {1..int (length (rows ?d))}"
    using update_player_ranks_dense [OF h] by blast
  then have s: "set (map col_rank (rows (update_player_ranks ?d))) = {1..3}"
    by simp
  have e: "map col_rank (rows (update_player_ranks ?d)) = [3, 1, 2]"
    by (simp add: update_player_ranks_def order_by_skill_desc_def update_player_rank_def)
  from h s e show ?thesis
    by blast
qed

text \<open>
  \<^bold>\<open>C7.\<close>  Registering a name that the table already holds (compared as exact strings)
  is refused and the store stays as it was: \<^verbatim>\<open>Manager.add_player\<close> finds the row, prints
  that the name is already used and adds nothing, and the insert of
  \<^verbatim>\<open>Database.add_player\<close> itself is rejected by the \<^verbatim>\<open>unique\<close> column with
  \<^verbatim>\<open>IntegrityError\<close>.  Registering a fresh name appends exactly one row, with
  \<open>mu = 50\<close>, \<open>sigma = 50/3\<close>, \<open>skill = 0\<close>, \<open>rank = 1000\<close>, \<open>ngames = 0\<close> and
  \<open>active = 1\<close>, and leaves the other rows as they were.
\<close>

theorem add_player_duplicate_or_fresh:
  "(nm \<in> set (map col_name (rows (db mg))) \<longrightarrow>
      Manager_add_player mg now nm pth
        = ([''Bot name '' @ nm @ '' already used, no bot added''], Inr mg)
      \<and> Database_add_player (db mg) now nm pth = Inl IntegrityError)
   \<and> (nm \<notin> set (map col_name (rows (db mg))) \<longrightarrow>
      Manager_add_player mg now nm pth
        = ([], Inr (mg\<lparr>db := (db mg)
              \<lparr>rows := rows (db mg) @
                 [\<lparr>col_id = autoinc (db mg) + 1, col_name = nm, col_path = pth,
                   col_lastseen = now, col_rank = 1000, col_skill = 0, col_mu = 50,
                   col_sigma = 50 / 3, col_ngames = 0, col_active = 1\<rparr>],
               autoinc := autoinc (db mg) + 1\<rparr>\<rparr>)))"
proof -
  have "get_player (db mg) [nm] = [] \<longleftrightarrow> nm \<notin> set (map col_name (rows (db mg)))"
    by (auto simp: get_player_def filter_empty_conv)
  then show ?thesis
    by (auto simp: Manager_add_player_def Database_add_player_def Let_def)
qed

theorem add_player_duplicate_or_fresh_witness:
  "Manager_add_player
     (Manager_default ''./halite''
        \<lparr>rows = [\<lparr>col_id = 1, col_name = ''one'', col_path = ''./one'', col_lastseen = ''01.01.2017 10:00:00'',
                  col_rank = 1, col_skill = 1.5, col_mu = 25, col_sigma = 8, col_ngames = 4, col_active = 1\<rparr>],
         autoinc = 1\<rparr>)
     ''02.01.2017 09:30:00'' ''one'' ''./other''
   = ([''Bot name one already used, no bot added''],
      Inr (Manager_default ''./halite''
        \<lparr>rows = [\<lparr>col_id = 1, col_name = ''one'', col_path = ''./one'', col_lastseen = ''01.01.2017 10:00:00'',
                  col_rank = 1, col_skill = 1.5, col_mu = 25, col_sigma = 8, col_ngames = 4, col_active = 1\<rparr>],
         autoinc = 1\<rparr>))
   \<and> Manager_add_player
     (Manager_default ''./halite''
        \<lparr>rows = [\<lparr>col_id = 1, col_name = ''one'', col_path = ''./one'', col_lastseen = ''01.01.2017 10:00:00'',
                  col_rank = 1, col_skill = 1.5, col_mu = 25, col_sigma = 8, col_ngames = 4, col_active = 1\<rparr>],
         autoinc = 1\<rparr>)
     ''02.01.2017 09:30:00'' ''One'' ''./other''
   = ([],
      Inr (Manager_default ''./halite''
        \<lparr>rows = [\<lparr>col_id = 1, col_name = ''one'', col_path = ''./one'', col_lastseen = ''01.01.2017 10:00:00'',
                  col_rank = 1, col_skill = 1.5, col_mu = 25, col_sigma = 8, col_ngames = 4, col_active = 1\<rparr>,
                 \<lparr>col_id = 2, col_name = ''One'', col_path = ''./other'', col_lastseen = ''02.01.2017 09:30:00'',
                  col_rank = 1000, col_skill = 0, col_mu = 50, col_sigma = 50 / 3, col_ngames = 0, col_active = 1\<rparr>],
         autoinc = 2\<rparr>))"
proof -
  let ?d = "\<lparr>rows = [\<lparr>col_id = 1, col_name = ''one'', col_path = ''./one'', col_lastseen = ''01.01.2017 10:00:00'',
                  col_rank = 1, col_skill = 1.5, col_mu = 25, col_sigma = 8, col_ngames = 4, col_active = 1\<rparr>],
         autoinc = 1::nat\<rparr>"
  let ?mg = "Manager_default ''./halite'' ?d"
  have d: "db ?mg = ?d"
    by (simp add: Manager_default_def Manager_init_def)
  have a: "''one'' \<in> set (map col_name (rows (db ?mg)))"
    and b: "''One'' \<notin> set (map col_name (rows (db ?mg)))"
    unfolding d by simp_all
  have "Manager_add_player ?mg ''02.01.2017 09:30:00'' ''one'' ''./other''
        = ([''Bot name '' @ ''one'' @ '' already used, no bot added''], Inr ?mg)"
    using add_player_duplicate_or_fresh [of "''one''" ?mg "''02.01.2017 09:30:00''" "''./other''"] a
    by blast
  moreover have "Manager_add_player ?mg ''02.01.2017 09:30:00'' ''One'' ''./other''
        = ([], Inr (?mg\<lparr>db := (db ?mg)
              \<lparr>rows := rows (db ?mg) @
                 [\<lparr>col_id = autoinc (db ?mg) + 1, col_name = ''One'', col_path = ''./other'',
                   col_lastseen = ''02.01.2017 09:30:00'', col_rank = 1000, col_skill = 0, col_mu = 50,
                   col_sigma = 50 / 3, col_ngames = 0, col_active = 1\<rparr>],
               autoinc := autoinc (db ?mg) + 1\<rparr>\<rparr>))"
    using add_player_duplicate_or_fresh [of "''One''" ?mg "''02.01.2017 09:30:00''" "''./other''"] b
    by blast
  ultimately show ?thesis
    by (simp add: Manager_default_def Manager_init_def)
qed

lemma update_player_skill_loop_finished:
  "update_player_skill_loop heap refs nm sd True = heap"
  by (induction refs) auto

lemma update_player_skill_first:
  "update_player_skill heap refs nm sd =
     (case find (\<lambda>i. name (heap ! i) = nm) refs of
        None \<Rightarrow> heap
      | Some i \<Rightarrow> heap[i := update_skill ((heap ! i)\<lparr>mu := fst sd, sigma := snd sd\<rparr>)])"
  unfolding update_player_skill_def
  by (induction refs) (auto simp: update_player_skill_loop_finished)

lemma find_distinct_name:
  "r \<in> set refs \<Longrightarrow> distinct (map (\<lambda>i. name (heap ! i)) refs) \<Longrightarrow>
     find (\<lambda>i. name (heap ! i) = name (heap ! r)) refs = Some r"
  by (induction refs) auto

lemma length_update_player_skill [simp]:
  "length (update_player_skill heap refs nm sd) = length heap"
  by (simp add: update_player_skill_first split: option.splits)

text \<open>
  \<^bold>\<open>C8.\<close>  A rating update of a participant \<open>r\<close> (the participants' names being pairwise
  different) with the posterior \<open>(mean, stdev)\<close> sets the player's \<open>mu\<close> and \<open>sigma\<close> to
  these values and its \<open>skill\<close> to \<open>mean - 3 * stdev\<close>; saving that player writes
  exactly these three values into the rows of its name, adds 1 to their \<open>ngames\<close> and
  sets their \<open>lastseen\<close> to the current time.  So the stored skill equals the stored
  \<open>mu\<close> minus three times the stored \<open>sigma\<close>.
\<close>

theorem rating_update_stored:
  assumes "r \<in> set refs" and "r < length heap"
    and "distinct (map (\<lambda>i. name (heap ! i)) refs)"
  shows "update_player_skill heap refs (name (heap ! r)) (mean, stdev) ! r
           = (heap ! r)\<lparr>mu := mean, sigma := stdev, skill := mean - 3 * stdev\<rparr>
     \<and> rows (save_player d now (update_player_skill heap refs (name (heap ! r)) (mean, stdev) ! r))
           = map (\<lambda>x. if col_name x = name (heap ! r)
                       then x\<lparr>col_ngames := col_ngames x + 1, col_lastseen := now,
                              col_skill := mean - 3 * stdev, col_mu := mean, col_sigma := stdev\<rparr>
                       else x) (rows d)
     \<and> (\<forall>x \<in> set (rows (save_player d now
                 (update_player_skill heap refs (name (heap ! r)) (mean, stdev) ! r))).
           col_name x = name (heap ! r) \<longrightarrow> col_skill x = col_mu x - 3 * col_sigma x)"
proof -
  have p: "update_player_skill heap refs (name (heap ! r)) (mean, stdev) ! r
           = (heap ! r)\<lparr>mu := mean, sigma := stdev, skill := mean - 3 * stdev\<rparr>"
    using assms by (simp add: update_player_skill_first find_distinct_name update_skill_def)
  have q: "rows (save_player d now (update_player_skill heap refs (name (heap ! r)) (mean, stdev) ! r))
           = map (\<lambda>x. if col_name x = name (heap ! r)
                       then x\<lparr>col_ngames := col_ngames x + 1, col_lastseen := now,
                              col_skill := mean - 3 * stdev, col_mu := mean, col_sigma := stdev\<rparr>
                       else x) (rows d)"
    unfolding p by (simp add: save_player_def Database_update_player_skill_def)
  have "\<forall>x \<in> set (rows (save_player d now
                 (update_player_skill heap refs (name (heap ! r)) (mean, stdev) ! r))).
           col_name x = name (heap ! r) \<longrightarrow> col_skill x = col_mu x - 3 * col_sigma x"
    unfolding q by auto
  with p q show ?thesis by blast
qed

theorem rating_update_stored_witness:
  "rows (save_player
      \<lparr>rows = [\<lparr>col_id = 1, col_name = ''one'', col_path = ''./one'', col_lastseen = ''01.01.2017 10:00:00'',
                 col_rank = 1, col_skill = 0, col_mu = 50, col_sigma = 50 / 3, col_ngames = 0, col_active = 1\<rparr>,
               \<lparr>col_id = 2, col_name = ''two'', col_path = ''./two'', col_lastseen = ''01.01.2017 10:00:00'',
                 col_rank = 2, col_skill = 0, col_mu = 50, col_sigma = 50 / 3, col_ngames = 0, col_active = 1\<rparr>],
       autoinc = 2\<rparr>
      ''02.01.2017 09:30:00''
      (update_player_skill [Player_init ''one'' ''./one'', Player_init ''two'' ''./two''] [0, 1]
         ''two'' (30, 5) ! 1))
   = [\<lparr>col_id = 1, col_name = ''one'', col_path = ''./one'', col_lastseen = ''01.01.2017 10:00:00'',
        col_rank = 1, col_skill = 0, col_mu = 50, col_sigma = 50 / 3, col_ngames = 0, col_active = 1\<rparr>,
      \<lparr>col_id = 2, col_name = ''two'', col_path = ''./two'', col_lastseen = ''02.01.2017 09:30:00'',
        col_rank = 2, col_skill = 15, col_mu = 30, col_sigma = 5, col_ngames = 1, col_active = 1\<rparr>]"
proof -
  let ?heap = "[Player_init ''one'' ''./one'', Player_init ''two'' ''./two'']"
  have h: "1 \<in> set [0, 1::nat]" "1 < length ?heap"
    "distinct (map (\<lambda>i. name (?heap ! i)) [0, 1])"
    by (simp_all add: Player_init_def)
  have n: "name (?heap ! 1) = ''two''"
    by (simp add: Player_init_def)
  note stored = rating_update_stored [OF h, of 30 5 _ "''02.01.2017 09:30:00''", unfolded n]
  show ?thesis
    by (subst conjunct1 [OF conjunct2 [OF stored]]) simp
qed

section \<open>Rounds\<close>


















section \<open>Choosing the participants and the board\<close>

lemma randint_int_eq:
  "randint_int g a b =
     (if b < a then Inl ValueError
      else Inr (a + int (fst (draw g) mod nat (b - a + 1)), snd (draw g)))"
  by (simp add: randint_int_def split: prod.splits)

lemma randint_int_range:
  assumes "randint_int g a b = Inr (k, g')"
  shows "a \<le> k \<and> k \<le> b"
proof -
  from assms have ab: "a \<le> b" and k: "k = a + int (fst (draw g) mod nat (b - a + 1))"
    by (auto simp: randint_int_eq split: if_splits)
  have "fst (draw g) mod nat (b - a + 1) < nat (b - a + 1)"
    using ab by (intro mod_less_divisor) simp
  then have "int (fst (draw g) mod nat (b - a + 1)) < b - a + 1"
    using ab by linarith
  with k show ?thesis
    by simp
qed



lemma pick_loop_invariant:
  assumes "pick_loop g open_set chosen k = Inr (ps, g')"
    and "distinct open_set" and "distinct chosen" and "set open_set \<inter> set chosen = {}"
  shows "distinct ps \<and> set ps \<subseteq> set open_set \<union> set chosen \<and> length ps = length chosen + k"
  using assms
proof (induction k arbitrary: g open_set chosen)
  case 0
  then show ?case by auto
next
  case (Suc k)
  from Suc.prems(1) obtain j g1 where
    r: "randint_int g 0 (int (length open_set) - 1) = Inr (j, g1)"
    and p: "pick_loop g1 (remove1 (open_set ! nat j) open_set) (chosen @ [open_set ! nat j]) k = Inr (ps, g')"
    by (auto simp: Let_def split: sum.splits)
  from r have "0 \<le> j" "j \<le> int (length open_set) - 1"
    by (auto dest: randint_int_range)
  then have m: "open_set ! nat j \<in> set open_set"
    by (intro nth_mem) linarith
  have "distinct ps \<and> set ps \<subseteq> set (remove1 (open_set ! nat j) open_set) \<union> set (chosen @ [open_set ! nat j])
      \<and> length ps = length (chosen @ [open_set ! nat j]) + k"
    using Suc.prems(2-4) m
    by (intro Suc.IH[OF p]) auto
  then show ?case
    using Suc.prems(2) m by auto
qed

lemma round_setup_players:
  assumes "round_setup mg g = Inr ((ps, w, h, seed), g')"
  shows "2 \<le> length ps \<and> int (length ps) \<le> min (players_max mg) (int (length (players mg)))
       \<and> distinct ps \<and> set ps \<subseteq> {..<length (players mg)}"
proof -
  from assms obtain num g1 g2 where
    n: "randint_int g 2 (min (players_max mg) (int (length (players mg)))) = Inr (num, g1)"
    and p: "pick_players mg g1 num = Inr (ps, g2)"
    by (auto simp: round_setup_def split: sum.splits prod.splits)
  from n have num: "2 \<le> num" "num \<le> min (players_max mg) (int (length (players mg)))"
    by (auto dest: randint_int_range)
  from p have "distinct ps \<and> set ps \<subseteq> set [0..<length (players mg)] \<union> set []
      \<and> length ps = length ([] :: nat list) + nat num"
    unfolding pick_players_def by (intro pick_loop_invariant) auto
  with num show ?thesis
    by auto
qed

lemma upt_5: "[0..<5] = [0, 1, 2, 3, 4]"
  by (simp add: upt_rec)

text \<open>
  \<^bold>\<open>C5.\<close>  The number of participants is drawn by \<^verbatim>\<open>random.randint(2, min(players_max,
  len(players)))\<close>: the lower bound is the literal 2, not \<open>players_min\<close>.  For a manager
  constructed with \<open>players_min = 3\<close> over five players, a round is set up with two
  participants, fewer than \<open>players_min\<close>.  (Whatever \<open>players_min\<close> is, the participants
  are pairwise different positions of the pool and their number lies between 2 and
  \<open>min players_max |pool|\<close>: lemma \<open>round_setup_players\<close>.)
\<close>

theorem round_setup_below_players_min:
  "players_min example_manager5 = 3
   \<and> length (players example_manager5) = 5
   \<and> players_max example_manager5 = 6
   \<and> round_setup example_manager5 [0, 0, 0, 0, 0] = Inr (([0, 1], 20, 20, 10000), [])"
proof -
  have f: "players_min example_manager5 = 3" "length (players example_manager5) = 5"
    "players_max example_manager5 = 6" "size_min example_manager5 = 20"
    "size_max example_manager5 = 50"
    by (simp_all add: example_manager5_def example_db5_def Manager_init_def)
  have "round_setup example_manager5 [0, 0, 0, 0, 0] = Inr (([0, 1], 20, 20, 10000), [])"
    by (simp add: round_setup_def randint_int_eq randint_def draw_def pick_players_def
      pick_size_def f upt_5 Let_def numeral_2_eq_2)
  with f show ?thesis by simp
qed



end
